theory Spec2Isabelle
  imports Main
begin

section \<open>Data model\<close>

text \<open>
  A Python \<open>str\<close> is a sequence of Unicode code points, so a string of the script is a
  list of code points (natural numbers): \<open>len\<close> and \<open>strip\<close> work on code points,
  not on bytes.
\<close>

type_synonym pystr = "nat list"

text \<open>
  The exceptions that the calls of the script raise synchronously: \<open>open\<close> and
  \<open>os.getcwd\<close> (the \<open>OSError\<close> family), the text decoder
  (\<open>UnicodeDecodeError\<close>), \<open>print\<close> (\<open>UnicodeEncodeError\<close>), the csv parser
  (\<open>csv.Error\<close>) and list indexing (\<open>IndexError\<close>). Every one of them derives from
  \<open>Exception\<close>. Asynchronous signals (\<open>KeyboardInterrupt\<close>) are outside the model.
\<close>

datatype py_exception =
    FileNotFoundError
  | PermissionError
  | IsADirectoryError
  | OSError
  | UnicodeDecodeError
  | UnicodeEncodeError
  | CsvError
  | IndexError

text \<open>
  What one \<open>next(reader)\<close> of the csv reader produces: a parsed row, or an exception
  raised while the underlying text file is read, decoded and parsed. The text layer
  decodes the file buffer by buffer, so a decoding failure surfaces at the call that
  reaches the offending buffer, which may come after rows have been delivered.
\<close>

datatype read_event = Row "pystr list" | Raises py_exception

text \<open>
  The state of a path: \<open>Missing\<close> when \<open>os.path.exists\<close> is false; otherwise either
  \<open>open\<close> raises, or it succeeds and the reader produces the listed events and then
  stops. Files are finite.
\<close>

datatype path_state = Missing | OpenFails py_exception | Opens "read_event list"

type_synonym filesystem = "pystr \<Rightarrow> path_state"

text \<open>
  The lines the script prints, one constructor per \<open>print\<close> call of the source, with
  the values interpolated into the line as arguments.
\<close>

datatype message =
    MsgNotExists pystr
  | MsgSkipHeader "pystr list"
  | MsgNotFound pystr
  | MsgDecodeError pystr
  | MsgReadError py_exception
  | MsgNoValidData
  | MsgStart
  | MsgNoDataExit
  | MsgLoaded nat
  | MsgSaved pystr
  | MsgRenderError py_exception
  | MsgDone

section \<open>Constants of the script\<close>

definition CSV_FILENAME :: pystr where
  "CSV_FILENAME = [25105, 30340, 24494, 20449, 22909, 21451, 20449, 24687, 46, 99, 115, 118]"

definition PROVINCE_COLUMN_INDEX :: int where
  "PROVINCE_COLUMN_INDEX = 3"

definition OUTPUT_HTML_FILENAME :: pystr where
  "OUTPUT_HTML_FILENAME =
     [22909, 21451, 25152, 22312, 30465, 20221, 20998, 24067, 22270, 46, 104, 116, 109, 108]"

definition MAP_TITLE :: pystr where
  "MAP_TITLE = [24494, 20449, 22909, 21451, 30465, 20221, 20998, 24067, 22270]"

definition MAP_SUBTITLE :: pystr where
  "MAP_SUBTITLE =
     [25968, 25454, 26469, 28304, 65306, 24494, 20449, 22909, 21451, 20449, 24687,
      67, 83, 86, 25991, 20214]"

definition SERIES_NAME :: pystr where
  "SERIES_NAME = [22909, 21451, 25968, 37327]"

definition NO_DATA_TITLE :: pystr where
  "NO_DATA_TITLE = [26080, 26377, 25928, 25968, 25454]"

section \<open>Python primitives used by the script\<close>

text \<open>\<open>str.isspace\<close> on one code point: the Unicode white space of CPython.\<close>

definition isspace :: "nat \<Rightarrow> bool" where
  "isspace c \<longleftrightarrow>
     (9 \<le> c \<and> c \<le> 13) \<or> (28 \<le> c \<and> c \<le> 32) \<or> c = 133 \<or> c = 160 \<or> c = 5760 \<or>
     (8192 \<le> c \<and> c \<le> 8202) \<or> c = 8232 \<or> c = 8233 \<or> c = 8239 \<or> c = 8287 \<or> c = 12288"

text \<open>\<open>s.strip()\<close>: white space removed at the left end, then at the right end.\<close>

definition lstrip :: "pystr \<Rightarrow> pystr" where
  "lstrip s = dropWhile isspace s"

definition rstrip :: "pystr \<Rightarrow> pystr" where
  "rstrip s = rev (dropWhile isspace (rev s))"

definition strip :: "pystr \<Rightarrow> pystr" where
  "strip s = rstrip (lstrip s)"

text \<open>
  \<open>row[i]\<close>: a negative index counts from the end of the list; an index outside the
  list raises \<open>IndexError\<close>.
\<close>

definition getitem :: "'a list \<Rightarrow> int \<Rightarrow> py_exception + 'a" where
  "getitem row i =
     (if 0 \<le> i then
        (if i < int (length row) then Inr (row ! nat i) else Inl IndexError)
      else
        (if - i \<le> int (length row) then Inr (row ! nat (int (length row) + i))
         else Inl IndexError))"

text \<open>
  Standard output is a text stream that encodes as UTF-8 with the strict error handler,
  the default of CPython: \<open>print\<close> writes a line unless the line holds a surrogate
  code point (U+D800 to U+DFFF), and then raises \<open>UnicodeEncodeError\<close>. A \<open>str\<close>
  holds such a code point when it is written with an escape or comes from a file name
  with undecodable bytes.
\<close>

definition is_surrogate :: "nat \<Rightarrow> bool" where
  "is_surrogate c \<longleftrightarrow> 55296 \<le> c \<and> c \<le> 57343"

definition utf8_encodable :: "pystr \<Rightarrow> bool" where
  "utf8_encodable s \<longleftrightarrow> \<not> list_ex is_surrogate s"

text \<open>
  Whether the text of a line can be encoded. The fixed text of every line can. A file
  name or a path is interpolated as it is, so the line is as encodable as the name. The
  header is interpolated through \<open>repr\<close> and an exception through \<open>str\<close>; both write
  a surrogate as an ASCII escape, and a number is written in digits.
\<close>

fun message_encodable :: "message \<Rightarrow> bool" where
  "message_encodable (MsgNotExists filename) = utf8_encodable filename"
| "message_encodable (MsgNotFound filename) = utf8_encodable filename"
| "message_encodable (MsgDecodeError filename) = utf8_encodable filename"
| "message_encodable (MsgSaved path) = utf8_encodable path"
| "message_encodable (MsgSkipHeader header) = True"
| "message_encodable (MsgReadError e) = True"
| "message_encodable (MsgRenderError e) = True"
| "message_encodable (MsgLoaded n) = True"
| "message_encodable MsgNoValidData = True"
| "message_encodable MsgStart = True"
| "message_encodable MsgNoDataExit = True"
| "message_encodable MsgDone = True"

text \<open>\<open>print(line)\<close>: the exception it raises, or \<open>None\<close> when the line is written.\<close>

definition py_print :: "message \<Rightarrow> py_exception option" where
  "py_print m = (if message_encodable m then None else Some UnicodeEncodeError)"

section \<open>The loader\<close>

text \<open>
  The \<open>for row in reader\<close> loop of \<open>load_province_data\<close>. The list \<open>provinces\<close> is
  mutated in place, so what was appended before an exception stays in it: the loop
  returns the list together with the exception that ended it, if any.
\<close>

fun read_rows :: "int \<Rightarrow> read_event list \<Rightarrow> pystr list \<Rightarrow> pystr list \<times> py_exception option" where
  "read_rows column_index [] provinces = (provinces, None)"
| "read_rows column_index (Raises e # evs) provinces = (provinces, Some e)"
| "read_rows column_index (Row row # evs) provinces =
     (if int (length row) > column_index then
        (case getitem row column_index of
           Inl e \<Rightarrow> (provinces, Some e)
         | Inr field \<Rightarrow>
             (let province = strip field in
              if province \<noteq> [] then read_rows column_index evs (provinces @ [province])
              else read_rows column_index evs provinces))
      else read_rows column_index evs provinces)"

text \<open>
  The body of the \<open>try\<close> block: \<open>open\<close>, \<open>next(reader, None)\<close> for the header (printed
  when it is truthy, that is a non-empty list), then the loop. The result is the lines
  written, the list \<open>provinces\<close> and the exception that left the block, if any.
\<close>

definition try_body :: "path_state \<Rightarrow> int \<Rightarrow> message list \<times> pystr list \<times> py_exception option" where
  "try_body st column_index =
     (case st of
        Missing \<Rightarrow> ([], [], Some FileNotFoundError)
      | OpenFails e \<Rightarrow> ([], [], Some e)
      | Opens evs \<Rightarrow>
          (case evs of
             [] \<Rightarrow> ([], [], None)
           | Raises e # rest \<Rightarrow> ([], [], Some e)
           | Row header # rest \<Rightarrow>
               (if header \<noteq> [] then
                  (case py_print (MsgSkipHeader header) of
                     Some e \<Rightarrow> ([], [], Some e)
                   | None \<Rightarrow>
                       (let (provinces, exc) = read_rows column_index rest []
                        in ([MsgSkipHeader header], provinces, exc)))
                else
                  (let (provinces, exc) = read_rows column_index rest []
                   in ([], provinces, exc)))))"

text \<open>
  \<open>isinstance(e, Exception)\<close> for the modelled exception classes, each of which derives
  from \<open>Exception\<close>.
\<close>

fun is_Exception :: "py_exception \<Rightarrow> bool" where
  "is_Exception FileNotFoundError = True"
| "is_Exception PermissionError = True"
| "is_Exception IsADirectoryError = True"
| "is_Exception OSError = True"
| "is_Exception UnicodeDecodeError = True"
| "is_Exception UnicodeEncodeError = True"
| "is_Exception CsvError = True"
| "is_Exception IndexError = True"

text \<open>
  The three \<open>except\<close> clauses in the order of the source. \<open>Some\<close> is the line that the
  matching clause prints; \<open>None\<close> means that no clause matches and the exception
  propagates.
\<close>

definition except_clauses :: "pystr \<Rightarrow> py_exception \<Rightarrow> message option" where
  "except_clauses filename e =
     (if e = FileNotFoundError then Some (MsgNotFound filename)
      else if e = UnicodeDecodeError then Some (MsgDecodeError filename)
      else if is_Exception e then Some (MsgReadError e)
      else None)"

text \<open>
  \<open>load_province_data(filename, column_index)\<close>: the lines written and either the
  returned list (\<open>Inr\<close>) or the exception that propagates to the caller (\<open>Inl\<close>). The
  \<open>print\<close> for a missing file stands before the \<open>try\<close> block, and the \<open>print\<close> of an
  \<open>except\<close> clause runs outside the protection of the block it belongs to: an exception
  raised by either leaves the function.
\<close>

definition load_province_data ::
    "filesystem \<Rightarrow> pystr \<Rightarrow> int \<Rightarrow> message list \<times> (py_exception + pystr list)" where
  "load_province_data fs filename column_index =
     (if fs filename = Missing then
        (case py_print (MsgNotExists filename) of
           Some e \<Rightarrow> ([], Inl e)
         | None \<Rightarrow> ([MsgNotExists filename], Inr []))
      else
        (case try_body (fs filename) column_index of
           (out, provinces, None) \<Rightarrow> (out, Inr provinces)
         | (out, provinces, Some e) \<Rightarrow>
             (case except_clauses filename e of
                None \<Rightarrow> (out, Inl e)
              | Some msg \<Rightarrow>
                  (case py_print msg of
                     Some e' \<Rightarrow> (out, Inl e')
                   | None \<Rightarrow> (out @ [msg], Inr provinces)))))"

section \<open>The aggregator\<close>

text \<open>
  \<open>Counter(province_list)\<close> is a dictionary that keeps the order of first insertion:
  an association list with one entry per key. Each element of the input adds one to the
  count of its key, a new key starting from zero.
\<close>

fun counter_incr :: "('k \<times> int) list \<Rightarrow> 'k \<Rightarrow> ('k \<times> int) list" where
  "counter_incr [] k = [(k, 1)]"
| "counter_incr ((k', c) # kcs) k =
     (if k' = k then (k', c + 1) # kcs else (k', c) # counter_incr kcs k)"

definition Counter :: "'k list \<Rightarrow> ('k \<times> int) list" where
  "Counter xs = foldl counter_incr [] xs"

text \<open>\<open>max(count for province, count in data_pair) if data_pair else 0\<close>.\<close>

fun max_count :: "('k \<times> int) list \<Rightarrow> int" where
  "max_count [] = 0"
| "max_count ((province, count) # rest) = foldl (\<lambda>m (p, c). max m c) count rest"

text \<open>
  The chart object and the options the script sets on it. The field \<open>max_bound\<close> is
  the keyword argument \<open>max_\<close> of \<open>VisualMapOpts\<close>.
\<close>

record TitleOpts =
  title :: pystr
  subtitle :: "pystr option"
  title_pos_left :: "string option"

record VisualMapOpts =
  max_bound :: int
  is_piecewise :: bool
  pos_left :: string
  pos_bottom :: string

record TooltipOpts =
  trigger :: string
  formatter :: string

record MapSeries =
  series_name :: pystr
  data_pair :: "(pystr \<times> int) list"
  maptype :: string
  is_map_symbol_show :: bool

record MapChart =
  series :: "MapSeries list"
  title_opts :: "TitleOpts option"
  visualmap_opts :: "VisualMapOpts option"
  tooltip_opts :: "TooltipOpts option"
  legend_is_show :: "bool option"
  label_is_show :: "bool option"

text \<open>\<open>Map()\<close>: a chart with no series and no option set.\<close>

definition Map_new :: MapChart where
  "Map_new = \<lparr>series = [], title_opts = None, visualmap_opts = None, tooltip_opts = None,
              legend_is_show = None, label_is_show = None\<rparr>"

text \<open>
  \<open>create_province_map(province_list)\<close>: the lines written and the chart returned. Its
  one \<open>print\<close> writes a fixed text.
\<close>

definition create_province_map :: "pystr list \<Rightarrow> message list \<times> MapChart" where
  "create_province_map province_list =
     (let province_counts = Counter province_list;
          data_pair = province_counts
      in if data_pair = [] then
           ([MsgNoValidData],
            Map_new\<lparr>title_opts :=
              Some \<lparr>title = NO_DATA_TITLE, subtitle = None, title_pos_left = None\<rparr>\<rparr>)
         else
           ([],
            Map_new
              \<lparr>series :=
                 [\<lparr>series_name = SERIES_NAME, data_pair = data_pair, maptype = ''china'',
                   is_map_symbol_show = False\<rparr>],
               title_opts :=
                 Some \<lparr>title = MAP_TITLE, subtitle = Some MAP_SUBTITLE,
                       title_pos_left = Some ''center''\<rparr>,
               visualmap_opts :=
                 Some \<lparr>max_bound = max_count data_pair + 1, is_piecewise = False,
                       pos_left = ''10%'', pos_bottom = ''10%''\<rparr>,
               tooltip_opts := Some \<lparr>trigger = ''item'', formatter = ''{b}: {c}''\<rparr>,
               legend_is_show := Some False,
               label_is_show := Some False\<rparr>))"

section \<open>The main program\<close>

text \<open>
  What a run does that is visible from outside: the lines it writes and the calls of
  \<open>render\<close> on a chart with the output path. The renderer is external: \<open>render\<close>
  gives the exception it raises, if any. So is the working directory:
  \<open>abspath\<close> gives what \<open>os.path.abspath\<close> returns, or the exception of \<open>os.getcwd\<close>.
  The call of \<open>render\<close>, the call of \<open>os.path.abspath\<close> and the \<open>print\<close> of the saved
  path stand in one \<open>try\<close> block, whose \<open>except Exception\<close> clause prints the exception.
  The other lines of the main program have a fixed text, or a number in it.
\<close>

datatype event = Print message | Render MapChart pystr

definition main ::
    "filesystem \<Rightarrow> (pystr \<Rightarrow> py_exception + pystr) \<Rightarrow>
     (MapChart \<Rightarrow> pystr \<Rightarrow> py_exception option) \<Rightarrow>
     event list \<times> (py_exception + unit)" where
  "main fs abspath render =
     (case load_province_data fs CSV_FILENAME PROVINCE_COLUMN_INDEX of
        (out1, Inl e) \<Rightarrow> (Print MsgStart # map Print out1, Inl e)
      | (out1, Inr province_data) \<Rightarrow>
          if province_data = [] then
            (Print MsgStart # map Print out1 @ [Print MsgNoDataExit, Print MsgDone], Inr ())
          else
            (let (out2, province_map) = create_province_map province_data
             in (Print MsgStart # map Print out1
                   @ [Print (MsgLoaded (length province_data))]
                   @ map Print out2
                   @ [Render province_map OUTPUT_HTML_FILENAME]
                   @ [case render province_map OUTPUT_HTML_FILENAME of
                        Some e \<Rightarrow> Print (MsgRenderError e)
                      | None \<Rightarrow>
                          (case abspath OUTPUT_HTML_FILENAME of
                             Inl e \<Rightarrow> Print (MsgRenderError e)
                           | Inr path \<Rightarrow>
                               (case py_print (MsgSaved path) of
                                  Some e \<Rightarrow> Print (MsgRenderError e)
                                | None \<Rightarrow> Print (MsgSaved path)))]
                   @ [Print MsgDone],
                 Inr ())))"

section \<open>Specification-side notions\<close>

text \<open>
  The rows that the reader delivers before it stops or raises, and the exception that
  ends the reading, if any.
\<close>

fun rows_before_failure :: "read_event list \<Rightarrow> pystr list list" where
  "rows_before_failure [] = []"
| "rows_before_failure (Raises e # evs) = []"
| "rows_before_failure (Row row # evs) = row # rows_before_failure evs"

fun first_failure :: "read_event list \<Rightarrow> py_exception option" where
  "first_failure [] = None"
| "first_failure (Raises e # evs) = Some e"
| "first_failure (Row row # evs) = first_failure evs"

fun rows_delivered :: "path_state \<Rightarrow> pystr list list" where
  "rows_delivered Missing = []"
| "rows_delivered (OpenFails e) = []"
| "rows_delivered (Opens evs) = rows_before_failure evs"

fun failure_of :: "path_state \<Rightarrow> py_exception option" where
  "failure_of Missing = None"
| "failure_of (OpenFails e) = Some e"
| "failure_of (Opens evs) = first_failure evs"

text \<open>
  The situations in which the loader prints a line that holds the file name as it is:
  the path is missing, or \<open>FileNotFoundError\<close> or \<open>UnicodeDecodeError\<close> ends the
  reading.
\<close>

definition filename_line_due :: "path_state \<Rightarrow> bool" where
  "filename_line_due st \<longleftrightarrow>
     st = Missing \<or> failure_of st = Some FileNotFoundError \<or>
     failure_of st = Some UnicodeDecodeError"

text \<open>
  The loader as the specification words it. A row with fewer than \<open>field_index + 1\<close>
  fields contributes nothing; otherwise the field at \<open>field_index\<close> is trimmed and
  kept when the trimmed value is not empty. The first row is dropped as the header and
  the remaining rows are taken in their order.
\<close>

definition spec_label :: "nat \<Rightarrow> pystr list \<Rightarrow> pystr option" where
  "spec_label field_index row =
     (if length row < field_index + 1 then None
      else (let v = strip (row ! field_index) in if v = [] then None else Some v))"

definition spec_labels :: "nat \<Rightarrow> pystr list list \<Rightarrow> pystr list" where
  "spec_labels field_index rows = List.map_filter (spec_label field_index) (drop 1 rows)"

text \<open>A label is clean when it is not empty and neither starts nor ends with white space.\<close>

definition clean_label :: "pystr \<Rightarrow> bool" where
  "clean_label l \<longleftrightarrow> l \<noteq> [] \<and> \<not> isspace (hd l) \<and> \<not> isspace (last l)"

text \<open>The count stored for a key in a frequency table, zero for an absent key.\<close>

definition tally :: "('k \<times> int) list \<Rightarrow> 'k \<Rightarrow> int" where
  "tally kcs k = (case map_of kcs k of None \<Rightarrow> 0 | Some c \<Rightarrow> c)"

text \<open>Whether a run called the renderer.\<close>

fun is_Render :: "event \<Rightarrow> bool" where
  "is_Render (Render chart path) = True"
| "is_Render (Print m) = False"

definition renderer_invoked :: "event list \<Rightarrow> bool" where
  "renderer_invoked trace = list_ex is_Render trace"

text \<open>
  Sample inputs. \<open>sample_rows\<close> is the header \<open>["\<dots>", "X"]\<close> (code points 30465, 20221)
  followed by three rows whose first fields are the code points 20140, 27818 and 20140.
  \<open>ragged_rows\<close> mixes rows that are too short, an empty row, a field of white space
  only and fields with white space around the value.
\<close>

definition sample_rows :: "pystr list list" where
  "sample_rows = [[[30465, 20221], [88]], [[20140], [65]], [[27818], [66]], [[20140], [67]]]"

definition ragged_rows :: "pystr list list" where
  "ragged_rows =
     [[[78], [80]], [[65], [32, 20140, 9]], [[66]], [], [[67], [32, 12288]],
      [[68], [27818], [69]]]"

text \<open>The file name \<open>.csv\<close> preceded by the lone surrogate U+DCFF.\<close>

definition surrogate_name :: pystr where
  "surrogate_name = [56575, 46, 99, 115, 118]"

section \<open>Properties of the primitives\<close>

lemma lstrip_hd: "lstrip s \<noteq> [] \<Longrightarrow> \<not> isspace (hd (lstrip s))"
  unfolding lstrip_def by (rule hd_dropWhile)

lemma rstrip_last: "rstrip s \<noteq> [] \<Longrightarrow> \<not> isspace (last (rstrip s))"
  unfolding rstrip_def by (simp add: last_rev hd_dropWhile)

lemma rstrip_hd: "rstrip s \<noteq> [] \<Longrightarrow> hd (rstrip s) = hd s"
proof -
  assume ne: "rstrip s \<noteq> []"
  have "rev s = takeWhile isspace (rev s) @ dropWhile isspace (rev s)" by simp
  then have "s = rstrip s @ rev (takeWhile isspace (rev s))"
    unfolding rstrip_def by (metis rev_append rev_rev_ident)
  with ne show ?thesis by (metis hd_append2)
qed

lemma strip_nonempty_ends:
  assumes "strip s \<noteq> []"
  shows "\<not> isspace (hd (strip s))" and "\<not> isspace (last (strip s))"
proof -
  from assms have r: "rstrip (lstrip s) \<noteq> []" by (simp add: strip_def)
  then have l: "lstrip s \<noteq> []" by (auto simp: rstrip_def)
  from r have "hd (strip s) = hd (lstrip s)" by (simp add: strip_def rstrip_hd)
  with l show "\<not> isspace (hd (strip s))" by (simp add: lstrip_hd)
  from r show "\<not> isspace (last (strip s))" by (simp add: strip_def rstrip_last)
qed

lemma strip_fixed:
  assumes "l \<noteq> []" "\<not> isspace (hd l)" "\<not> isspace (last l)"
  shows "strip l = l"
proof -
  from assms have a: "lstrip l = l" by (cases l) (simp_all add: lstrip_def)
  from assms have "dropWhile isspace (rev l) = rev l"
    by (cases "rev l") (simp_all add: hd_rev)
  then have "rstrip l = l" by (simp add: rstrip_def)
  with a show ?thesis by (simp add: strip_def)
qed

lemma getitem_nonneg:
  "0 \<le> i \<Longrightarrow> int (length row) > i \<Longrightarrow> getitem row i = Inr (row ! nat i)"
  by (simp add: getitem_def)

section \<open>Properties of the loader\<close>

lemma read_rows_step:
  assumes "0 \<le> ci"
  shows "read_rows ci (Row row # evs) acc =
           read_rows ci evs (acc @ (case spec_label (nat ci) row of None \<Rightarrow> [] | Some l \<Rightarrow> [l]))"
proof (cases "int (length row) > ci")
  case True
  with assms have "\<not> length row < nat ci + 1" by linarith
  with True assms show ?thesis
    by (simp add: getitem_nonneg spec_label_def Let_def)
next
  case False
  with assms have "length row < nat ci + 1" by linarith
  with False show ?thesis by (simp add: spec_label_def)
qed

lemma map_filter_Cons:
  "List.map_filter f (x # xs) = (case f x of None \<Rightarrow> [] | Some y \<Rightarrow> [y]) @ List.map_filter f xs"
  by (simp add: List.map_filter_def split: option.splits)

lemma read_rows_spec:
  "0 \<le> ci \<Longrightarrow>
   read_rows ci evs acc =
     (acc @ List.map_filter (spec_label (nat ci)) (rows_before_failure evs), first_failure evs)"
proof (induction evs arbitrary: acc)
  case Nil
  show ?case by (simp add: List.map_filter_def)
next
  case (Cons ev evs)
  show ?case
  proof (cases ev)
    case (Row row)
    with Cons show ?thesis
      by (simp only: read_rows_step rows_before_failure.simps first_failure.simps
            map_filter_Cons append_assoc)
  next
    case (Raises e)
    then show ?thesis by (simp add: List.map_filter_def)
  qed
qed

lemma rows_before_failure_append:
  "rows_before_failure (map Row rows @ Raises e # rest) = rows"
  by (induction rows) simp_all

lemma first_failure_append: "first_failure (map Row rows @ Raises e # rest) = Some e"
  by (induction rows) simp_all

lemma rows_before_failure_rows: "rows_before_failure (map Row rows) = rows"
  by (induction rows) simp_all

lemma py_print_header: "py_print (MsgSkipHeader header) = None"
  by (simp add: py_print_def)

lemma py_print_read_error: "py_print (MsgReadError e) = None"
  by (simp add: py_print_def)

lemma py_print_filename:
  "py_print (MsgNotExists filename) = (if utf8_encodable filename then None else Some UnicodeEncodeError)"
  "py_print (MsgNotFound filename) = (if utf8_encodable filename then None else Some UnicodeEncodeError)"
  "py_print (MsgDecodeError filename) = (if utf8_encodable filename then None else Some UnicodeEncodeError)"
  by (simp_all add: py_print_def)

lemma utf8_encodable_CSV_FILENAME: "utf8_encodable CSV_FILENAME"
  by (simp add: utf8_encodable_def CSV_FILENAME_def is_surrogate_def)

lemma not_utf8_encodable_surrogate_name: "\<not> utf8_encodable surrogate_name"
  by (simp add: utf8_encodable_def surrogate_name_def is_surrogate_def)

lemma try_body_header:
  "try_body (Opens (Row header # evs)) ci =
     ((if header \<noteq> [] then [MsgSkipHeader header] else []),
      fst (read_rows ci evs []), snd (read_rows ci evs []))"
  by (simp add: try_body_def py_print_header split: prod.splits)

lemma try_body_provinces:
  assumes "0 \<le> ci"
  shows "fst (snd (try_body st ci)) = spec_labels (nat ci) (rows_delivered st)"
proof (cases st)
  case Missing
  then show ?thesis by (simp add: try_body_def spec_labels_def List.map_filter_def)
next
  case (OpenFails e)
  then show ?thesis by (simp add: try_body_def spec_labels_def List.map_filter_def)
next
  case (Opens evs)
  show ?thesis
  proof (cases evs)
    case Nil
    with Opens show ?thesis by (simp add: try_body_def spec_labels_def List.map_filter_def)
  next
    case (Cons ev rest)
    show ?thesis
    proof (cases ev)
      case (Row header)
      with Opens Cons assms show ?thesis
        by (simp add: try_body_header read_rows_spec spec_labels_def)
    next
      case (Raises e)
      with Opens Cons show ?thesis
        by (simp add: try_body_def spec_labels_def List.map_filter_def)
    qed
  qed
qed

lemma try_body_failure:
  assumes "0 \<le> ci" and "st \<noteq> Missing"
  shows "snd (snd (try_body st ci)) = failure_of st"
proof (cases st)
  case Missing
  with assms(2) show ?thesis by simp
next
  case (OpenFails e)
  then show ?thesis by (simp add: try_body_def)
next
  case (Opens evs)
  show ?thesis
  proof (cases evs)
    case Nil
    with Opens show ?thesis by (simp add: try_body_def)
  next
    case (Cons ev rest)
    show ?thesis
    proof (cases ev)
      case (Row header)
      with Opens Cons assms(1) show ?thesis
        by (simp add: try_body_header read_rows_spec)
    next
      case (Raises e)
      with Opens Cons show ?thesis by (simp add: try_body_def)
    qed
  qed
qed

lemma read_rows_clean:
  "list_all clean_label acc \<Longrightarrow> list_all clean_label (fst (read_rows ci evs acc))"
proof (induction ci evs acc rule: read_rows.induct)
  case (3 ci row evs acc)
  then show ?case
    by (auto simp: Let_def clean_label_def strip_nonempty_ends split: sum.splits)
qed simp_all

lemma try_body_clean: "list_all clean_label (fst (snd (try_body st ci)))"
proof -
  have "list_all clean_label (fst (read_rows ci evs []))" for evs
    by (rule read_rows_clean) simp
  then show ?thesis
    by (auto simp: try_body_def py_print_header
          split: path_state.splits list.splits read_event.splits prod.splits)
qed

lemma except_clauses_total: "\<exists>msg. except_clauses filename e = Some msg"
  by (cases e) (simp_all add: except_clauses_def)

lemma except_clauses_encodable:
  "message_encodable (the (except_clauses filename e)) \<longleftrightarrow>
     utf8_encodable filename \<or> (e \<noteq> FileNotFoundError \<and> e \<noteq> UnicodeDecodeError)"
  by (cases e) (simp_all add: except_clauses_def)

text \<open>
  The loader in one equation: the list is returned unless the one line that holds the
  file name cannot be written.
\<close>

lemma load_returns:
  "load_province_data fs filename ci =
     (if fs filename = Missing then
        (if utf8_encodable filename then ([MsgNotExists filename], Inr [])
         else ([], Inl UnicodeEncodeError))
      else
        (case snd (snd (try_body (fs filename) ci)) of
           None \<Rightarrow> (fst (try_body (fs filename) ci), Inr (fst (snd (try_body (fs filename) ci))))
         | Some e \<Rightarrow>
             (if message_encodable (the (except_clauses filename e)) then
                (fst (try_body (fs filename) ci) @ [the (except_clauses filename e)],
                 Inr (fst (snd (try_body (fs filename) ci))))
              else (fst (try_body (fs filename) ci), Inl UnicodeEncodeError))))"
proof -
  obtain out ps ex where t: "try_body (fs filename) ci = (out, ps, ex)"
    by (cases "try_body (fs filename) ci") auto
  show ?thesis
  proof (cases ex)
    case None
    with t show ?thesis by (simp add: load_province_data_def py_print_filename)
  next
    case (Some e)
    obtain msg where "except_clauses filename e = Some msg"
      using except_clauses_total by blast
    with t Some show ?thesis by (simp add: load_province_data_def py_print_def)
  qed
qed

lemma load_returned_list:
  assumes "snd (load_province_data fs filename ci) = Inr provinces"
  shows "provinces = (if fs filename = Missing then [] else fst (snd (try_body (fs filename) ci)))"
  using assms by (auto simp: load_returns split: if_splits option.splits)

lemma load_encodable_returns:
  assumes "utf8_encodable filename"
  shows "\<exists>out provinces. load_province_data fs filename ci = (out, Inr provinces)"
  using assms by (simp add: load_returns except_clauses_encodable split: option.splits)

section \<open>Properties of the aggregator\<close>

lemma counter_incr_keys: "fst ` set (counter_incr kcs k) = insert k (fst ` set kcs)"
  by (induction kcs k rule: counter_incr.induct) auto

lemma counter_incr_distinct:
  "distinct (map fst kcs) \<Longrightarrow> distinct (map fst (counter_incr kcs k))"
proof (induction kcs k rule: counter_incr.induct)
  case (2 k' c kcs k)
  then show ?case using counter_incr_keys [of kcs k] by auto
qed simp

lemma counter_incr_sum: "sum_list (map snd (counter_incr kcs k)) = sum_list (map snd kcs) + 1"
  by (induction kcs k rule: counter_incr.induct) auto

lemma counter_incr_tally:
  "tally (counter_incr kcs k) k' = (if k' = k then tally kcs k + 1 else tally kcs k')"
  by (induction kcs k rule: counter_incr.induct) (auto simp: tally_def)

lemma counter_incr_positive:
  "list_all (\<lambda>(k, c). 1 \<le> c) kcs \<Longrightarrow> list_all (\<lambda>(k, c). 1 \<le> c) (counter_incr kcs k')"
  by (induction kcs k' rule: counter_incr.induct) auto

lemma foldl_incr_keys: "fst ` set (foldl counter_incr kcs xs) = fst ` set kcs \<union> set xs"
  by (induction xs arbitrary: kcs) (auto simp: counter_incr_keys)

lemma foldl_incr_distinct:
  "distinct (map fst kcs) \<Longrightarrow> distinct (map fst (foldl counter_incr kcs xs))"
  by (induction xs arbitrary: kcs) (auto simp: counter_incr_distinct)

lemma foldl_incr_sum:
  "sum_list (map snd (foldl counter_incr kcs xs)) = sum_list (map snd kcs) + int (length xs)"
  by (induction xs arbitrary: kcs) (auto simp: counter_incr_sum)

lemma foldl_incr_tally:
  "tally (foldl counter_incr kcs xs) k = tally kcs k + int (count_list xs k)"
  by (induction xs arbitrary: kcs) (auto simp: counter_incr_tally)

lemma foldl_incr_positive:
  "list_all (\<lambda>(k, c). 1 \<le> c) kcs \<Longrightarrow> list_all (\<lambda>(k, c). 1 \<le> c) (foldl counter_incr kcs xs)"
  by (induction xs arbitrary: kcs) (auto simp: counter_incr_positive)

lemma Counter_keys: "fst ` set (Counter xs) = set xs"
  by (simp add: Counter_def foldl_incr_keys)

lemma Counter_distinct: "distinct (map fst (Counter xs))"
  by (simp add: Counter_def foldl_incr_distinct)

lemma Counter_sum: "sum_list (map snd (Counter xs)) = int (length xs)"
  by (simp add: Counter_def foldl_incr_sum)

lemma Counter_positive: "list_all (\<lambda>(k, c). 1 \<le> c) (Counter xs)"
  by (simp add: Counter_def foldl_incr_positive)

lemma Counter_tally: "tally (Counter xs) k = int (count_list xs k)"
proof -
  have "tally ([] :: ('a \<times> int) list) k = 0" by (simp add: tally_def)
  then show ?thesis by (simp add: Counter_def foldl_incr_tally)
qed

lemma Counter_entry:
  "(k, c) \<in> set (Counter xs) \<longleftrightarrow> k \<in> set xs \<and> c = int (count_list xs k)"
proof
  assume m: "(k, c) \<in> set (Counter xs)"
  then have "map_of (Counter xs) k = Some c"
    by (simp add: map_of_eq_Some_iff [OF Counter_distinct])
  then have "tally (Counter xs) k = c" by (simp add: tally_def)
  then have "c = int (count_list xs k)" by (simp add: Counter_tally)
  moreover from m have "k \<in> fst ` set (Counter xs)" by force
  ultimately show "k \<in> set xs \<and> c = int (count_list xs k)" by (simp add: Counter_keys)
next
  assume a: "k \<in> set xs \<and> c = int (count_list xs k)"
  then have "k \<in> fst ` set (Counter xs)" by (simp add: Counter_keys)
  then obtain c' where m: "(k, c') \<in> set (Counter xs)" by auto
  then have "map_of (Counter xs) k = Some c'"
    by (simp add: map_of_eq_Some_iff [OF Counter_distinct])
  then have "tally (Counter xs) k = c'" by (simp add: tally_def)
  with a m show "(k, c) \<in> set (Counter xs)" by (simp add: Counter_tally)
qed

lemma Counter_set: "set (Counter xs) = (\<lambda>l. (l, int (count_list xs l))) ` set xs"
  by (auto simp: Counter_entry)

lemma Counter_empty: "Counter xs = [] \<longleftrightarrow> xs = []"
  using Counter_keys [of xs] by (metis image_is_empty set_empty)

lemma foldl_max_Max:
  "foldl (\<lambda>m (p, c). max m c) a rest = Max (insert a (snd ` set rest))"
proof (induction rest arbitrary: a)
  case Nil
  show ?case by simp
next
  case (Cons x rest)
  obtain p c where x: "x = (p, c)" by (cases x)
  have "Max (insert (max a c) (snd ` set rest)) = Max (insert a (insert c (snd ` set rest)))"
    by (cases "set rest = {}") (simp_all add: max.assoc)
  with Cons x show ?case by simp
qed

lemma max_count_Max: "kcs \<noteq> [] \<Longrightarrow> max_count kcs = Max (snd ` set kcs)"
  by (cases kcs) (auto simp: foldl_max_Max)

lemma max_count_Counter:
  assumes "xs \<noteq> []"
  shows "max_count (Counter xs) = Max ((\<lambda>l. int (count_list xs l)) ` set xs)"
proof -
  from assms have "Counter xs \<noteq> []" by (simp add: Counter_empty)
  then have "max_count (Counter xs) = Max (snd ` set (Counter xs))" by (rule max_count_Max)
  also have "snd ` set (Counter xs) = (\<lambda>l. int (count_list xs l)) ` set xs"
    by (simp add: Counter_set image_image)
  finally show ?thesis .
qed

lemma create_province_map_nonempty:
  "province_list \<noteq> [] \<Longrightarrow>
   create_province_map province_list =
     ([],
      Map_new
        \<lparr>series :=
           [\<lparr>series_name = SERIES_NAME, data_pair = Counter province_list, maptype = ''china'',
             is_map_symbol_show = False\<rparr>],
         title_opts :=
           Some \<lparr>title = MAP_TITLE, subtitle = Some MAP_SUBTITLE,
                 title_pos_left = Some ''center''\<rparr>,
         visualmap_opts :=
           Some \<lparr>max_bound = max_count (Counter province_list) + 1, is_piecewise = False,
                 pos_left = ''10%'', pos_bottom = ''10%''\<rparr>,
         tooltip_opts := Some \<lparr>trigger = ''item'', formatter = ''{b}: {c}''\<rparr>,
         legend_is_show := Some False,
         label_is_show := Some False\<rparr>)"
  by (simp add: create_province_map_def Counter_empty Let_def)

section \<open>Properties of the main program\<close>

lemma main_no_data:
  "load_province_data fs CSV_FILENAME PROVINCE_COLUMN_INDEX = (out, Inr []) \<Longrightarrow>
   main fs abspath render =
     (Print MsgStart # map Print out @ [Print MsgNoDataExit, Print MsgDone], Inr ())"
  by (simp add: main_def)

lemma main_renders_aggregated_chart:
  assumes "load_province_data fs CSV_FILENAME PROVINCE_COLUMN_INDEX = (out, Inr province_data)"
    and "province_data \<noteq> []"
  shows "Render (snd (create_province_map province_data)) OUTPUT_HTML_FILENAME
           \<in> set (fst (main fs abspath render))"
  using assms by (simp add: main_def split: prod.splits)

lemma no_render_in_prints: "\<not> list_ex is_Render (map Print out)"
  by (induction out) simp_all

text \<open>
  The name of the input file of the script holds no surrogate, so in a run the loader
  always returns, and so does the run. When the input file is missing, the run writes
  four lines and does not call the renderer.
\<close>

lemma main_returns: "\<exists>trace. main fs abspath render = (trace, Inr ())"
proof -
  obtain out provinces where
    "load_province_data fs CSV_FILENAME PROVINCE_COLUMN_INDEX = (out, Inr provinces)"
    using load_encodable_returns [OF utf8_encodable_CSV_FILENAME] by blast
  then show ?thesis by (simp add: main_def split: prod.splits)
qed

lemma main_missing_file:
  assumes "fs CSV_FILENAME = Missing"
  shows "main fs abspath render =
           ([Print MsgStart, Print (MsgNotExists CSV_FILENAME), Print MsgNoDataExit,
             Print MsgDone], Inr ())"
proof -
  from assms have
    "load_province_data fs CSV_FILENAME PROVINCE_COLUMN_INDEX =
       ([MsgNotExists CSV_FILENAME], Inr [])"
    by (simp add: load_returns utf8_encodable_CSV_FILENAME)
  then show ?thesis by (simp add: main_no_data)
qed

section \<open>The claims\<close>

text \<open>
  Claim C1. For every input file and zero-based field index, the loader discards the
  first row as a header whatever it holds; each later row with fewer than
  \<open>field_index + 1\<close> fields contributes nothing, and otherwise its field at
  \<open>field_index\<close> is trimmed and appended only when the trimmed value is not empty. The
  output follows the order of the rows. The rows are those the reader delivers: all of
  them when the file reads through, those before the exception otherwise. The theorem
  gives the outcome of the loader for every path state and every file name: the list
  just described, except where a line holding the file name is due and the name cannot
  be written to standard output, where \<open>print\<close> raises and nothing is returned.
\<close>

theorem loader_labels_in_row_order:
  assumes "0 \<le> column_index"
  shows "snd (load_province_data fs filename column_index) =
           (if filename_line_due (fs filename) \<and> \<not> utf8_encodable filename
            then Inl UnicodeEncodeError
            else Inr (spec_labels (nat column_index) (rows_delivered (fs filename))))"
proof (cases "fs filename = Missing")
  case True
  then show ?thesis
    by (simp add: load_returns filename_line_due_def spec_labels_def List.map_filter_def)
next
  case False
  with assms have f: "snd (snd (try_body (fs filename) column_index)) = failure_of (fs filename)"
    by (simp add: try_body_failure)
  show ?thesis
  proof (cases "failure_of (fs filename)")
    case None
    with False f assms show ?thesis
      by (simp add: load_returns filename_line_due_def try_body_provinces)
  next
    case (Some e)
    with False f assms show ?thesis
      by (auto simp: load_returns filename_line_due_def try_body_provinces
            except_clauses_encodable)
  qed
qed

theorem loader_labels_in_row_order_witness:
  "(0::int) \<le> 1 \<and>
   rows_delivered ((\<lambda>p. Opens (map Row ragged_rows)) CSV_FILENAME) = ragged_rows \<and>
   snd (load_province_data (\<lambda>p. Opens (map Row ragged_rows)) CSV_FILENAME 1) =
     Inr [[20140], [27818]]"
  using loader_labels_in_row_order [of 1 "\<lambda>p. Opens (map Row ragged_rows)" CSV_FILENAME]
  by (simp add: ragged_rows_def spec_labels_def spec_label_def List.map_filter_def
        strip_def lstrip_def rstrip_def isspace_def utf8_encodable_CSV_FILENAME)

text \<open>
  Claim C3. For every input file whose contents cannot be decoded as UTF-8, the loader
  reports a decode error and returns an empty sequence. The docstring of
  \<open>load_province_data\<close> promises the empty list on a read error as well. The code
  returns the list \<open>provinces\<close> as it stands when the exception is caught: for a file
  whose first buffer decodes and whose later buffer does not, the rows of the first
  buffer have been appended already. The theorem evaluates the loader on such a file:
  a header, one data row, then \<open>UnicodeDecodeError\<close>; the result is the one label, not
  the empty list.
\<close>

theorem decode_error_keeps_partial_labels:
  "load_province_data
     (\<lambda>p. Opens [Row [[30465, 20221], [88]], Row [[20140], [65]], Raises UnicodeDecodeError])
     CSV_FILENAME 0
     = ([MsgSkipHeader [[30465, 20221], [88]], MsgDecodeError CSV_FILENAME], Inr [[20140]])"
  by (simp add: load_province_data_def try_body_def except_clauses_def getitem_def
        strip_def lstrip_def rstrip_def isspace_def Let_def py_print_def
        utf8_encodable_CSV_FILENAME)

text \<open>
  Claim C4. When a failure other than file-not-found or a decode failure occurs while
  the rows are read, the loader catches it, reports a read error, and returns exactly
  the labels accumulated from the rows delivered before the failure (none when the
  failure comes before any data row); no exception reaches the caller.
\<close>

theorem read_error_returns_partial_labels:
  assumes "e \<noteq> FileNotFoundError" and "e \<noteq> UnicodeDecodeError"
    and "0 \<le> column_index"
    and "fs filename = Opens (map Row rows @ Raises e # rest)"
  shows "load_province_data fs filename column_index =
           ((if rows \<noteq> [] \<and> hd rows \<noteq> [] then [MsgSkipHeader (hd rows)] else [])
              @ [MsgReadError e],
            Inr (spec_labels (nat column_index) rows))"
proof -
  from assms(1,2) have ex: "except_clauses filename e = Some (MsgReadError e)"
    by (cases e) (simp_all add: except_clauses_def)
  show ?thesis
  proof (cases rows)
    case Nil
    with assms(4) ex show ?thesis
      by (simp add: load_returns try_body_def spec_labels_def List.map_filter_def)
  next
    case (Cons header data)
    with assms(3,4) ex show ?thesis
      by (simp add: load_returns try_body_header read_rows_spec spec_labels_def
            rows_before_failure_append first_failure_append)
  qed
qed

theorem read_error_returns_partial_labels_witness:
  "CsvError \<noteq> FileNotFoundError \<and> CsvError \<noteq> UnicodeDecodeError \<and> (0::int) \<le> 0 \<and>
   (\<lambda>p. Opens (map Row (take 3 sample_rows) @ Raises CsvError # [Row [[20140], [67]]]))
      CSV_FILENAME
     = Opens (map Row (take 3 sample_rows) @ Raises CsvError # [Row [[20140], [67]]]) \<and>
   load_province_data
     (\<lambda>p. Opens (map Row (take 3 sample_rows) @ Raises CsvError # [Row [[20140], [67]]]))
     CSV_FILENAME 0
     = ([MsgSkipHeader [[30465, 20221], [88]], MsgReadError CsvError],
        Inr [[20140], [27818]])"
  using read_error_returns_partial_labels
    [of CsvError 0
        "\<lambda>p. Opens (map Row (take 3 sample_rows) @ Raises CsvError # [Row [[20140], [67]]])"
        CSV_FILENAME "take 3 sample_rows" "[Row [[20140], [67]]]"]
  by (simp add: sample_rows_def spec_labels_def spec_label_def List.map_filter_def
        strip_def lstrip_def rstrip_def isspace_def)

text \<open>
  Claim C7. Every label in the sequence returned by the loader, for every file and every
  field index, is a non-empty string with no white space at its start or end (so
  trimming it again changes nothing).
\<close>

theorem loader_labels_clean:
  assumes "snd (load_province_data fs filename column_index) = Inr provinces"
    and "l \<in> set provinces"
  shows "l \<noteq> [] \<and> \<not> isspace (hd l) \<and> \<not> isspace (last l) \<and> strip l = l"
proof -
  have "list_all clean_label provinces"
  proof (cases "fs filename = Missing")
    case True
    with load_returned_list [OF assms(1)] show ?thesis by simp
  next
    case False
    with load_returned_list [OF assms(1)]
    have "provinces = fst (snd (try_body (fs filename) column_index))" by simp
    then show ?thesis by (simp add: try_body_clean)
  qed
  with assms(2) have "clean_label l" by (simp add: list_all_iff)
  then show ?thesis by (simp add: clean_label_def strip_fixed)
qed

theorem loader_labels_clean_witness:
  "snd (load_province_data (\<lambda>p. Opens (map Row ragged_rows)) CSV_FILENAME 1) =
     Inr [[20140], [27818]] \<and>
   [20140] \<in> set [[20140], [27818 :: nat]] \<and>
   [20140 :: nat] \<noteq> [] \<and> \<not> isspace (hd [20140]) \<and> \<not> isspace (last [20140]) \<and>
   strip [20140] = [20140]"
  using loader_labels_clean
    [of "\<lambda>p. Opens (map Row ragged_rows)" CSV_FILENAME 1 "[[20140], [27818]]" "[20140]"]
  by (simp add: ragged_rows_def load_province_data_def try_body_def getitem_def
        strip_def lstrip_def rstrip_def isspace_def py_print_def)

text \<open>
  Claim C10. For every path and field index \<open>load_province_data\<close> returns a list and
  lets no exception through to its caller. The docstring promises the same: the list of
  names, and the empty list when the file does not exist or cannot be read; the second
  \<open>except\<close> clause for a missing file is there, in the words of its comment, to catch it
  once more just in case. The code misses the \<open>print\<close> calls that hold the file name as
  it is: the \<open>print\<close> of an \<open>except\<close> clause is not protected by the \<open>try\<close> block of that
  clause. The theorem evaluates the loader on the file name \<open>surrogate_name\<close>: for a
  file whose reading ends in \<open>UnicodeDecodeError\<close>, and for a file that vanishes between
  the check and \<open>open\<close>, the \<open>print\<close> of the \<open>except\<close> clause raises
  \<open>UnicodeEncodeError\<close>, which reaches the caller, and no list is returned.
\<close>

theorem except_clause_print_raises:
  "load_province_data
     (\<lambda>p. Opens [Row [[30465, 20221], [88]], Row [[20140], [65]], Raises UnicodeDecodeError])
     surrogate_name 0
     = ([MsgSkipHeader [[30465, 20221], [88]]], Inl UnicodeEncodeError) \<and>
   load_province_data (\<lambda>p. OpenFails FileNotFoundError) surrogate_name 0
     = ([], Inl UnicodeEncodeError)"
  by (simp add: load_province_data_def try_body_def except_clauses_def getitem_def
        strip_def lstrip_def rstrip_def isspace_def Let_def py_print_def
        not_utf8_encodable_surrogate_name)

text \<open>
  Claim C2. For every non-empty label sequence given to \<open>create_province_map\<close>, the
  pairs handed to the chart are exactly the entries of the frequency table of the
  sequence, one pair \<open>(label, number of occurrences)\<close> per distinct label, none added
  and none dropped; the scale bound is the largest count over the distinct labels, and
  the upper bound configured on the chart is that bound plus one.
\<close>

theorem aggregator_pairs_and_scale:
  assumes "province_list \<noteq> []"
  shows "map data_pair (series (snd (create_province_map province_list))) =
           [Counter province_list] \<and>
         set (Counter province_list) =
           (\<lambda>l. (l, int (count_list province_list l))) ` set province_list \<and>
         distinct (map fst (Counter province_list)) \<and>
         max_count (Counter province_list) =
           Max ((\<lambda>l. int (count_list province_list l)) ` set province_list) \<and>
         map_option max_bound (visualmap_opts (snd (create_province_map province_list))) =
           Some (max_count (Counter province_list) + 1)"
  using assms
  by (simp add: create_province_map_nonempty Counter_set Counter_distinct max_count_Counter)

theorem aggregator_pairs_and_scale_witness:
  "[[20140], [27818], [20140 :: nat]] \<noteq> [] \<and>
   map data_pair (series (snd (create_province_map [[20140], [27818], [20140]]))) =
     [[([20140], 2), ([27818], 1)]] \<and>
   set (Counter [[20140], [27818], [20140 :: nat]]) =
     (\<lambda>l. (l, int (count_list [[20140], [27818], [20140]] l))) `
       set [[20140], [27818], [20140]] \<and>
   max_count (Counter [[20140], [27818], [20140 :: nat]]) = 2 \<and>
   map_option max_bound
     (visualmap_opts (snd (create_province_map [[20140], [27818], [20140]]))) = Some 3"
  using aggregator_pairs_and_scale [of "[[20140], [27818], [20140]]"]
  by (simp add: Counter_def)

text \<open>
  Claim C9. For every label sequence, the keys of the frequency table built by the
  aggregator are the distinct labels of the sequence (each key once), every count is at
  least 1, and the counts add up to the length of the sequence.
\<close>

theorem counter_invariants:
  "fst ` set (Counter xs) = set xs \<and>
   distinct (map fst (Counter xs)) \<and>
   list_all (\<lambda>(k, c). 1 \<le> c) (Counter xs) \<and>
   sum_list (map snd (Counter xs)) = int (length xs)"
  by (simp add: Counter_keys Counter_distinct Counter_positive Counter_sum)

text \<open>
  Claim C8. For the header row \<open>["\<dots>", "X"]\<close> followed by the three data rows of
  \<open>sample_rows\<close> and field index 0, the loader yields the labels 20140, 27818, 20140
  (as code points); the aggregator applied to them yields exactly the pairs
  \<open>(20140, 2)\<close> and \<open>(27818, 1)\<close> with scale bound 2, the chart's upper bound being 3.
\<close>

theorem round_trip_scenario:
  "load_province_data (\<lambda>p. Opens (map Row sample_rows)) filename 0 =
     ([MsgSkipHeader [[30465, 20221], [88]]], Inr [[20140], [27818], [20140]]) \<and>
   Counter [[20140], [27818], [20140 :: nat]] = [([20140], 2), ([27818], 1)] \<and>
   max_count (Counter [[20140], [27818], [20140 :: nat]]) = 2 \<and>
   map data_pair (series (snd (create_province_map [[20140], [27818], [20140]]))) =
     [[([20140], 2), ([27818], 1)]] \<and>
   map_option max_bound
     (visualmap_opts (snd (create_province_map [[20140], [27818], [20140]]))) = Some 3"
proof -
  have c: "Counter [[20140], [27818], [20140 :: nat]] = [([20140], 2), ([27818], 1)]"
    by (simp add: Counter_def)
  have l: "load_province_data (\<lambda>p. Opens (map Row sample_rows)) filename 0 =
     ([MsgSkipHeader [[30465, 20221], [88]]], Inr [[20140], [27818], [20140]])"
    by (simp add: sample_rows_def load_province_data_def try_body_def getitem_def
          strip_def lstrip_def rstrip_def isspace_def Let_def py_print_def)
  have m: "create_province_map [[20140], [27818], [20140]] =
     ([],
      Map_new
        \<lparr>series :=
           [\<lparr>series_name = SERIES_NAME, data_pair = [([20140], 2), ([27818], 1)],
             maptype = ''china'', is_map_symbol_show = False\<rparr>],
         title_opts :=
           Some \<lparr>title = MAP_TITLE, subtitle = Some MAP_SUBTITLE,
                 title_pos_left = Some ''center''\<rparr>,
         visualmap_opts :=
           Some \<lparr>max_bound = 3, is_piecewise = False, pos_left = ''10%'',
                 pos_bottom = ''10%''\<rparr>,
         tooltip_opts := Some \<lparr>trigger = ''item'', formatter = ''{b}: {c}''\<rparr>,
         legend_is_show := Some False,
         label_is_show := Some False\<rparr>)"
    by (simp add: create_province_map_def c Let_def)
  show ?thesis by (simp add: c l m)
qed

text \<open>
  Claim C5. For every path that does not reference an existing file, the loader reports
  the missing file, raises nothing to its caller and returns an empty sequence, and in
  that run the renderer is never invoked. The docstring promises the empty list when
  the file does not exist. The \<open>print\<close> that reports the missing file holds the file
  name as it is and stands before the \<open>try\<close> block. The theorem evaluates the loader on
  the missing path \<open>surrogate_name\<close>: the \<open>print\<close> raises \<open>UnicodeEncodeError\<close>, which
  reaches the caller; no line is written and no list is returned. For the input file of
  the script itself, whose name holds no surrogate, \<open>main_missing_file\<close> gives the run.
\<close>

theorem missing_file_print_raises:
  "load_province_data (\<lambda>p. Missing) surrogate_name PROVINCE_COLUMN_INDEX =
     ([], Inl UnicodeEncodeError)"
  by (simp add: load_province_data_def py_print_def not_utf8_encodable_surrogate_name)

text \<open>
  Claim C6. Whenever the label sequence produced by the loader is empty, the run prints
  its no-data line and ends without invoking the renderer. The aggregator itself, given
  an empty sequence, prints its own warning and returns a chart with no series, so no
  degenerate pair set is built.
\<close>

theorem empty_labels_no_render:
  assumes "snd (load_province_data fs CSV_FILENAME PROVINCE_COLUMN_INDEX) = Inr []"
  shows "main fs abspath render =
           (Print MsgStart #
              map Print (fst (load_province_data fs CSV_FILENAME PROVINCE_COLUMN_INDEX)) @
              [Print MsgNoDataExit, Print MsgDone], Inr ()) \<and>
         \<not> renderer_invoked (fst (main fs abspath render)) \<and>
         fst (create_province_map []) = [MsgNoValidData] \<and>
         series (snd (create_province_map [])) = []"
proof -
  from assms have
    "load_province_data fs CSV_FILENAME PROVINCE_COLUMN_INDEX =
       (fst (load_province_data fs CSV_FILENAME PROVINCE_COLUMN_INDEX), Inr [])"
    by (simp add: prod_eq_iff)
  then have m: "main fs abspath render =
           (Print MsgStart #
              map Print (fst (load_province_data fs CSV_FILENAME PROVINCE_COLUMN_INDEX)) @
              [Print MsgNoDataExit, Print MsgDone], Inr ())"
    by (rule main_no_data)
  have "\<not> renderer_invoked (fst (main fs abspath render))"
    by (simp add: m renderer_invoked_def no_render_in_prints)
  moreover have "fst (create_province_map []) = [MsgNoValidData]"
    and "series (snd (create_province_map [])) = []"
    by (simp_all add: create_province_map_def Counter_def Map_new_def)
  ultimately show ?thesis using m by simp
qed

theorem empty_labels_no_render_witness:
  "snd (load_province_data (\<lambda>p. Opens [Row [[30465, 20221], [88]]]) CSV_FILENAME
          PROVINCE_COLUMN_INDEX) = Inr [] \<and>
   main (\<lambda>p. Opens [Row [[30465, 20221], [88]]]) (\<lambda>path. Inr path) (\<lambda>chart path. None) =
     ([Print MsgStart, Print (MsgSkipHeader [[30465, 20221], [88]]), Print MsgNoDataExit,
       Print MsgDone], Inr ()) \<and>
   \<not> renderer_invoked
       (fst (main (\<lambda>p. Opens [Row [[30465, 20221], [88]]]) (\<lambda>path. Inr path)
               (\<lambda>chart path. None)))"
proof -
  have l: "load_province_data (\<lambda>p. Opens [Row [[30465, 20221], [88]]]) CSV_FILENAME
          PROVINCE_COLUMN_INDEX = ([MsgSkipHeader [[30465, 20221], [88]]], Inr [])"
    by (simp add: load_province_data_def try_body_def py_print_def)
  show ?thesis
    using empty_labels_no_render
      [of "\<lambda>p. Opens [Row [[30465, 20221], [88]]]" "\<lambda>path. Inr path" "\<lambda>chart path. None"]
    by (simp add: l renderer_invoked_def)
qed

end
